theory Spec2Isabelle
  imports Complex_Main
begin

section \<open>The ResNet regressor adapter of sktime, as a state-passing model\<close>

text \<open>
  The source is \<^verbatim>\<open>sktime/regression/deep_learning/resnet.py\<close>: the class
  \<^verbatim>\<open>ResNetRegressor\<close> with \<^verbatim>\<open>__init__\<close>, \<^verbatim>\<open>build_model\<close>, \<^verbatim>\<open>_fit\<close> and
  \<^verbatim>\<open>get_test_params\<close>. Each method is a function that takes the adapter object
  (\<open>self\<close>) and the state of the Python process (\<open>world\<close>) and returns both, updated.
  An exception is a value of type \<open>error\<close>; a method that raises returns the state it
  had reached when it raised.
\<close>

subsection \<open>Errors\<close>

datatype error =
    ModuleNotFoundError
  | ValueError
  | FrameworkError string

subsection \<open>Arrays\<close>

text \<open>
  A numpy array is its shape and its elements in row-major order. The element type is
  a parameter: nothing here computes with the elements.
\<close>

record 'a ndarray =
  shape :: "nat list"
  data :: "'a list"

definition wf_ndarray :: "'a ndarray \<Rightarrow> bool" where
  "wf_ndarray X = (length (data X) = prod_list (shape X))"

text \<open>
  The element \<open>(i, j, k)\<close> of a three-dimensional array of shape \<open>(n, d, m)\<close> is at
  offset \<open>i * (d * m) + j * m + k\<close>. \<^verbatim>\<open>X.transpose(0, 2, 1)\<close> has shape \<open>(n, m, d)\<close>
  and its element \<open>(i, j, k)\<close> is the element \<open>(i, k, j)\<close> of \<open>X\<close>; numpy raises a
  \<^verbatim>\<open>ValueError\<close> when the number of axes given is not the array's.
\<close>

definition swap_last_axes :: "nat \<Rightarrow> nat \<Rightarrow> nat \<Rightarrow> 'a list \<Rightarrow> 'a list" where
  "swap_last_axes n d m xs =
     concat (map (\<lambda>i.
       concat (map (\<lambda>j.
         map (\<lambda>k. xs ! (i * (d * m) + k * m + j)) [0..<d]) [0..<m])) [0..<n])"

definition transpose_021 :: "'a ndarray \<Rightarrow> error + 'a ndarray" where
  "transpose_021 X =
     (case shape X of
        [n, d, m] \<Rightarrow> Inr \<lparr>shape = [n, m, d], data = swap_last_axes n d m (data X)\<rparr>
      | _ \<Rightarrow> Inl ValueError)"


subsection \<open>Python objects\<close>

text \<open>
  Two kinds of mutable objects occur: lists (of callbacks) and instances (a callback, an
  optimizer). A list holds references to instances. References are addresses into two
  stores of the process; a fresh object takes the next free address of its store.
\<close>

type_synonym list_ref = nat
type_synonym obj_ref = nat

datatype pyobject =
    Adam rat
  | LambdaCallback
  | Instance string

text \<open>
  The seed an adapter is given: \<^verbatim>\<open>None\<close>, the module \<^verbatim>\<open>numpy.random\<close> itself, an
  integer, a \<^verbatim>\<open>numpy.random.RandomState\<close> instance, or any other object.
\<close>

datatype random_state =
    NoSeed
  | NumpyRandomModule
  | IntSeed int
  | RandomStateObject nat
  | OtherSeed string

datatype rng = GlobalRng | SeededRng int | GivenRng nat

text \<open>
  \<^verbatim>\<open>sklearn.utils.check_random_state\<close>:
  \<^verbatim>\<open>
  if seed is None or seed is np.random: return np.random.mtrand._rand
  if isinstance(seed, numbers.Integral): return np.random.RandomState(seed)
  if isinstance(seed, np.random.RandomState): return seed
  raise ValueError(...)
  \<close>
  \<^verbatim>\<open>None\<close> and the module \<^verbatim>\<open>numpy.random\<close> give the global generator, an integer a
  new generator seeded with it (numpy accepts seeds from \<open>0\<close> to \<open>2^32 - 1\<close> and raises
  \<^verbatim>\<open>ValueError\<close> otherwise), a generator is returned as it is, and anything else raises
  \<^verbatim>\<open>ValueError\<close>.
\<close>

fun check_random_state :: "random_state \<Rightarrow> error + rng" where
  "check_random_state NoSeed = Inr GlobalRng"
| "check_random_state NumpyRandomModule = Inr GlobalRng"
| "check_random_state (IntSeed i) =
     (if 0 \<le> i \<and> i < 2 ^ 32 then Inr (SeededRng i) else Inl ValueError)"
| "check_random_state (RandomStateObject g) = Inr (GivenRng g)"
| "check_random_state (OtherSeed s) = Inl ValueError"

subsection \<open>The network-topology provider\<close>

text \<open>
  Modelled from the spec: the class \<^verbatim>\<open>ResNetNetwork\<close> of
  \<^verbatim>\<open>sktime.networks.resnet\<close> is not among the sources. A provider object holds the
  seed it was instantiated with ("instantiates the network-topology provider with the
  given random seed") and the width of the feature vector it produces, which its own
  code fixes and the spec does not give.
\<close>

record network =
  net_random_state :: random_state
  n_feature_maps :: nat

datatype tensor =
    Input "nat list"
  | ResidualFeatures network tensor
  | Dense nat string bool tensor

text \<open>
  A tensor of the framework's graph, as the expression that built it: a placeholder
  for inputs of a shape, the provider's feature tensor over a tensor, a dense layer
  (units, activation, bias flag) over a tensor. \<open>tensor_shape\<close> is the shape of one
  instance; a dense layer maps the last axis of its input to its number of units.
\<close>

fun tensor_shape :: "tensor \<Rightarrow> nat list" where
  "tensor_shape (Input s) = s"
| "tensor_shape (ResidualFeatures net t) = [n_feature_maps net]"
| "tensor_shape (Dense units act bias t) = butlast (tensor_shape t) @ [units]"

datatype pyval = IntV int | BoolV bool | ListV list_ref

type_synonym kwargs = "(string \<times> pyval) list"

text \<open>
  Modelled from the spec: the constructor of \<^verbatim>\<open>ResNetNetwork\<close>, which is not among
  the sources. The spec: the provider is instantiated "with the given random seed". The
  width of its feature vector is the parameter \<open>width\<close>, which the process state
  supplies (\<open>resnet_feature_maps\<close> below).
\<close>

definition ResNetNetwork :: "random_state \<Rightarrow> nat \<Rightarrow> network" where
  "ResNetNetwork seed width = \<lparr>net_random_state = seed, n_feature_maps = width\<rparr>"

text \<open>
  Modelled from the spec: \<^verbatim>\<open>ResNetNetwork.build_network\<close>, which is not among the
  sources. The spec: "given an input shape, returns an input placeholder and an output
  feature tensor representing stacked residual blocks"; one dense layer of width 1 on
  that tensor gives an output of shape \<open>(1,)\<close> per instance, so the feature tensor is
  one feature vector per instance (\<open>tensor_shape\<close> above).
\<close>

definition build_network :: "network \<Rightarrow> nat list \<Rightarrow> kwargs \<Rightarrow> tensor \<times> tensor" where
  "build_network net input_shape kw =
     (Input input_shape, ResidualFeatures net (Input input_shape))"

subsection \<open>Models and the training loop\<close>

record compile_args =
  compiled_loss :: string
  compiled_optimizer :: obj_ref
  compiled_metrics :: "string list"

record model =
  inputs :: tensor
  outputs :: tensor
  compiled :: "compile_args option"

definition Model :: "tensor \<Rightarrow> tensor \<Rightarrow> model" where
  "Model i out = \<lparr>inputs = i, outputs = out, compiled = None\<rparr>"

definition compile :: "model \<Rightarrow> string \<Rightarrow> obj_ref \<Rightarrow> string list \<Rightarrow> model" where
  "compile mdl l opt ms =
     mdl\<lparr>compiled := Some \<lparr>compiled_loss = l, compiled_optimizer = opt, compiled_metrics = ms\<rparr>\<rparr>"

record 'a fit_call =
  fit_model :: model
  fit_X :: "'a ndarray"
  fit_y :: "'a ndarray"
  fit_batch_size :: int
  fit_epochs :: int
  fit_verbose :: bool
  fit_callbacks :: "list_ref option"

text \<open>The history a training run returns: for each metric, its value after each epoch.\<close>

type_synonym 'a history = "(string \<times> 'a list) list"

text \<open>The calls into the framework that change or show its state, in the order made.\<close>

datatype 'a event =
    SetSeed random_state
  | NewAdam obj_ref
  | BuildNetwork "nat list"
  | Compile model
  | Summary model
  | Fit "'a fit_call"

subsection \<open>The state of the process\<close>

text \<open>
  \<open>training_loop\<close> is the framework's \<^verbatim>\<open>Model.fit\<close>: what it returns or raises for a
  call is not in the sources, so every theorem holds for any such function.
  \<open>resnet_feature_maps\<close> is the width of the feature vector that the installed
  \<^verbatim>\<open>ResNetNetwork\<close> produces.
\<close>

record 'a world =
  tensorflow_installed :: bool
  keras_installed :: bool
  resnet_feature_maps :: nat
  list_store :: "list_ref \<Rightarrow> obj_ref list option"
  object_store :: "obj_ref \<Rightarrow> pyobject option"
  next_list :: list_ref
  next_object :: obj_ref
  global_seed :: "random_state option"
  trace :: "'a event list"
  training_loop :: "'a fit_call \<Rightarrow> error + 'a history"

definition emit :: "'a event \<Rightarrow> 'a world \<Rightarrow> 'a world" where
  "emit e w = w\<lparr>trace := trace w @ [e]\<rparr>"

definition new_object :: "pyobject \<Rightarrow> 'a world \<Rightarrow> obj_ref \<times> 'a world" where
  "new_object ob w =
     (next_object w,
      w\<lparr>object_store := (object_store w)(next_object w \<mapsto> ob),
        next_object := Suc (next_object w)\<rparr>)"

definition new_list :: "obj_ref list \<Rightarrow> 'a world \<Rightarrow> list_ref \<times> 'a world" where
  "new_list xs w =
     (next_list w,
      w\<lparr>list_store := (list_store w)(next_list w \<mapsto> xs),
        next_list := Suc (next_list w)\<rparr>)"

text \<open>
  Every list and every object lies below the next free address of its store, and so
  does every item of a list. Allocation keeps this true.
\<close>

definition wf_world :: "'a world \<Rightarrow> bool" where
  "wf_world w =
     ((\<forall>r xs. list_store w r = Some xs \<longrightarrow> r < next_list w \<and> (\<forall>a \<in> set xs. a < next_object w))
      \<and> (\<forall>a ob. object_store w a = Some ob \<longrightarrow> a < next_object w))"

text \<open>\<^verbatim>\<open>keras.optimizers.Adam(learning_rate=lr)\<close> makes a new optimizer object.\<close>

definition keras_Adam :: "rat \<Rightarrow> 'a world \<Rightarrow> obj_ref \<times> 'a world" where
  "keras_Adam lr w = (case new_object (Adam lr) w of (a, w1) \<Rightarrow> (a, emit (NewAdam a) w1))"

text \<open>\<^verbatim>\<open>tf.random.set_seed(seed)\<close> sets the one global seed of the process.\<close>

definition set_seed :: "random_state \<Rightarrow> 'a world \<Rightarrow> 'a world" where
  "set_seed seed w = emit (SetSeed seed) (w\<lparr>global_seed := Some seed\<rparr>)"

text \<open>
  \<^verbatim>\<open>copy.deepcopy\<close> of \<^verbatim>\<open>None\<close> is \<^verbatim>\<open>None\<close>. Of a list it is a new list whose items
  are copies of the items; the memo gives an object that occurs twice one copy.
  (A reference always denotes an object in Python; \<open>map_option\<close> and the update by
  \<open>objs a\<close> only keep the model total on a store where it does not.)
\<close>

fun deepcopy_items ::
  "obj_ref list \<Rightarrow> (obj_ref \<times> obj_ref) list \<Rightarrow> (obj_ref \<Rightarrow> pyobject option) \<Rightarrow> obj_ref \<Rightarrow>
     obj_ref list \<times> (obj_ref \<Rightarrow> pyobject option) \<times> obj_ref" where
  "deepcopy_items [] memo objs nxt = ([], objs, nxt)"
| "deepcopy_items (a # as) memo objs nxt =
     (case map_of memo a of
        Some c \<Rightarrow>
          (case deepcopy_items as memo objs nxt of
             (cs, objs', nxt') \<Rightarrow> (c # cs, objs', nxt'))
      | None \<Rightarrow>
          (case deepcopy_items as ((a, nxt) # memo) (objs(nxt := objs a)) (Suc nxt) of
             (cs, objs', nxt') \<Rightarrow> (nxt # cs, objs', nxt')))"

fun deepcopy :: "list_ref option \<Rightarrow> 'a world \<Rightarrow> list_ref option \<times> 'a world" where
  "deepcopy None w = (None, w)"
| "deepcopy (Some r) w =
     (case deepcopy_items (case list_store w r of None \<Rightarrow> [] | Some xs \<Rightarrow> xs) []
             (object_store w) (next_object w) of
        (cs, objs', nxt') \<Rightarrow>
          (Some (next_list w),
           w\<lparr>list_store := (list_store w)(next_list w := map_option (\<lambda>xs. cs) (list_store w r)),
             next_list := Suc (next_list w),
             object_store := objs',
             next_object := nxt'\<rparr>))"

subsection \<open>The adapter\<close>

text \<open>
  The attributes of a \<^verbatim>\<open>ResNetRegressor\<close>. Those that \<^verbatim>\<open>build_model\<close> and \<^verbatim>\<open>_fit\<close>
  create are \<open>None\<close> until then: \<open>optimizer_fitted\<close>, \<open>model_fitted\<close> and
  \<open>callbacks_fitted\<close> are the attributes \<^verbatim>\<open>optimizer_\<close>, \<^verbatim>\<open>model_\<close> and \<^verbatim>\<open>callbacks_\<close>
  of the source (a name cannot end with an underscore here), and \<open>input_shape\<close>.
\<close>

record 'a adapter =
  n_epochs :: int
  callbacks :: "list_ref option"
  verbose :: bool
  loss :: string
  metrics :: "string list option"
  batch_size :: int
  random_state :: random_state
  activation :: string
  use_bias :: bool
  optimizer :: "obj_ref option"
  history :: "'a history option"
  network :: network
  optimizer_fitted :: "obj_ref option"
  input_shape :: "nat list option"
  model_fitted :: "model option"
  callbacks_fitted :: "list_ref option option"

text \<open>
  Modelled from the spec: \<^verbatim>\<open>_check_dl_dependencies\<close> of
  \<^verbatim>\<open>sktime.utils.validation._dependencies\<close> is not among the sources. The spec:
  construction requires "the external deep-learning dependency to be installed (fails
  fast with a dependency-missing error otherwise)".
\<close>

definition check_dl_dependencies :: "'a world \<Rightarrow> error + unit" where
  "check_dl_dependencies w = (if tensorflow_installed w then Inr () else Inl ModuleNotFoundError)"

text \<open>
  Modelled from the spec: \<^verbatim>\<open>_check_soft_dependencies\<close> of the same module is not
  among the sources. The spec: the test parameters include a callback "when the
  optional callback library is present". The source asks for the package
  \<^verbatim>\<open>"keras"\<close> with \<^verbatim>\<open>severity="none"\<close>, so the answer is a truth value.
\<close>

definition check_soft_dependencies :: "string \<Rightarrow> 'a world \<Rightarrow> bool" where
  "check_soft_dependencies package w = (package = ''keras'' \<and> keras_installed w)"

text \<open>
  \<^verbatim>\<open>__init__\<close>, with its arguments in the order of the source. A caller that omits
  an argument passes the default of the signature: 1500 epochs, no callbacks, not
  verbose, the loss \<^verbatim>\<open>"mean_squared_error"\<close>, no metrics, batch size 16, no seed, the
  activation \<^verbatim>\<open>"linear"\<close>, bias, no optimizer. (\<^verbatim>\<open>super().__init__()\<close> is the base
  class's own and sets none of these attributes.)
\<close>

definition init ::
  "int \<Rightarrow> list_ref option \<Rightarrow> bool \<Rightarrow> string \<Rightarrow> string list option \<Rightarrow> int \<Rightarrow> random_state \<Rightarrow>
     string \<Rightarrow> bool \<Rightarrow> obj_ref option \<Rightarrow> 'a world \<Rightarrow> error + 'a adapter" where
  "init epochs cbs verb l ms bs seed act bias opt w =
     (case check_dl_dependencies w of
        Inl e \<Rightarrow> Inl e
      | Inr u \<Rightarrow>
          Inr \<lparr>n_epochs = epochs, callbacks = cbs, verbose = verb, loss = l, metrics = ms,
               batch_size = bs, random_state = seed, activation = act, use_bias = bias,
               optimizer = opt, history = None, network = ResNetNetwork seed (resnet_feature_maps w),
               optimizer_fitted = None, input_shape = None, model_fitted = None, callbacks_fitted = None\<rparr>)"

text \<open>\<^verbatim>\<open>build_model\<close>: returns the compiled model, the adapter and the process state.\<close>

definition build_model ::
  "'a adapter \<Rightarrow> nat list \<Rightarrow> kwargs \<Rightarrow> 'a world \<Rightarrow> model \<times> 'a adapter \<times> 'a world" where
  "build_model self shp kw w =
     (let w1 = set_seed (random_state self) w;
          (opt, w2) = (case optimizer self of
                         None \<Rightarrow> keras_Adam (1 / 100) w1
                       | Some given \<Rightarrow> (given, w1));
          self1 = self\<lparr>optimizer_fitted := Some opt\<rparr>;
          ms = (case metrics self1 of
                  None \<Rightarrow> [''mean_squared_error'']
                | Some given \<Rightarrow> given);
          (input_layer, output_layer) = build_network (network self1) shp kw;
          w3 = emit (BuildNetwork shp) w2;
          output_layer1 = Dense 1 (activation self1) (use_bias self1) output_layer;
          mdl = compile (Model input_layer output_layer1) (loss self1) opt ms
      in (mdl, self1, emit (Compile mdl) w3))"

text \<open>
  \<^verbatim>\<open>_fit\<close>. The result is \<open>Inr ()\<close> when the method returns (it returns \<open>self\<close>, the
  adapter of the triple).
\<close>

definition fit ::
  "'a adapter \<Rightarrow> 'a ndarray \<Rightarrow> 'a ndarray \<Rightarrow> 'a world \<Rightarrow> (error + unit) \<times> 'a adapter \<times> 'a world" where
  "fit self X y w =
     (case transpose_021 X of
        Inl e \<Rightarrow> (Inl e, self, w)
      | Inr Xt \<Rightarrow>
          (case check_random_state (random_state self) of
             Inl e \<Rightarrow> (Inl e, self, w)
           | Inr g \<Rightarrow>
               (let self1 = self\<lparr>input_shape := Some (tl (shape Xt))\<rparr>;
                    (mdl, self2, w1) = build_model self1 (tl (shape Xt)) [] w;
                    self3 = self2\<lparr>model_fitted := Some mdl\<rparr>;
                    w2 = (if verbose self3 then emit (Summary mdl) w1 else w1);
                    (cbs, w3) = deepcopy (callbacks self3) w2;
                    self4 = self3\<lparr>callbacks_fitted := Some cbs\<rparr>;
                    call = \<lparr>fit_model = mdl, fit_X = Xt, fit_y = y,
                            fit_batch_size = batch_size self4, fit_epochs = n_epochs self4,
                            fit_verbose = verbose self4, fit_callbacks = cbs\<rparr>;
                    w4 = emit (Fit call) w3
                in (case training_loop w4 call of
                      Inl e \<Rightarrow> (Inl e, self4, w4)
                    | Inr h \<Rightarrow> (Inr (), self4\<lparr>history := Some h\<rparr>, w4)))))"

text \<open>
  \<^verbatim>\<open>get_test_params\<close>: a list of dictionaries, each a list of keys and values in the
  order written.
\<close>

definition get_test_params :: "string \<Rightarrow> 'a world \<Rightarrow> kwargs list \<times> 'a world" where
  "get_test_params parameter_set w =
     (let param1 = [(''n_epochs'', IntV 6), (''batch_size'', IntV 4), (''use_bias'', BoolV False)];
          param2 = [(''n_epochs'', IntV 4), (''batch_size'', IntV 6), (''use_bias'', BoolV True)];
          test_params = [param1, param2]
      in if check_soft_dependencies ''keras'' w then
           (let (cb, w1) = new_object LambdaCallback w;
                (cbs, w2) = new_list [cb] w1
            in (test_params @ [[(''n_epochs'', IntV 2), (''callbacks'', ListV cbs)]], w2))
         else (test_params, w))"

subsection \<open>Functions used to state the properties\<close>

text \<open>
  The number of dense layers on the way from the input to a tensor.
\<close>

fun count_dense :: "tensor \<Rightarrow> nat" where
  "count_dense (Input s) = 0"
| "count_dense (ResidualFeatures net t) = count_dense t"
| "count_dense (Dense units act bias t) = Suc (count_dense t)"


text \<open>
  The model \<^verbatim>\<open>build_model\<close> returns, for the optimizer it resolved.
\<close>

definition head_model :: "'a adapter \<Rightarrow> nat list \<Rightarrow> obj_ref \<Rightarrow> model" where
  "head_model self shp opt =
     \<lparr>inputs = Input shp,
      outputs = Dense 1 (activation self) (use_bias self) (ResidualFeatures (network self) (Input shp)),
      compiled = Some \<lparr>compiled_loss = loss self, compiled_optimizer = opt,
                       compiled_metrics = (case metrics self of None \<Rightarrow> [''mean_squared_error''] | Some ms \<Rightarrow> ms)\<rparr>\<rparr>"


text \<open>
  What a dictionary of test parameters configures: the number of epochs, the batch
  size, a list of one \<^verbatim>\<open>LambdaCallback\<close>.
\<close>

definition epochs_in_range :: "kwargs \<Rightarrow> bool" where
  "epochs_in_range p =
     (case map_of p ''n_epochs'' of Some (IntV e) \<Rightarrow> 2 \<le> e \<and> e \<le> 6 | _ \<Rightarrow> False)"

definition batch_size_in_range :: "kwargs \<Rightarrow> bool" where
  "batch_size_in_range p =
     (case map_of p ''batch_size'' of Some (IntV b) \<Rightarrow> 4 \<le> b \<and> b \<le> 6 | _ \<Rightarrow> False)"

definition has_noop_callback :: "'a world \<Rightarrow> kwargs \<Rightarrow> bool" where
  "has_noop_callback w p =
     (case map_of p ''callbacks'' of
        Some (ListV l) \<Rightarrow>
          (case list_store w l of
             Some [cb] \<Rightarrow> object_store w cb = Some LambdaCallback
           | _ \<Rightarrow> False)
      | _ \<Rightarrow> False)"

subsection \<open>A concrete process, adapter and data set\<close>

text \<open>
  A process with both libraries installed, a list of two callbacks and an optimizer
  object; the adapter the first test parameters give, with that list as callbacks; one
  series of two dimensions and length three.
\<close>

definition example_world :: "int world" where
  "example_world =
     \<lparr>tensorflow_installed = True, keras_installed = True, resnet_feature_maps = 128,
      list_store = [0 \<mapsto> [0, 1]],
      object_store = [0 \<mapsto> Instance ''EarlyStopping'', 1 \<mapsto> LambdaCallback, 2 \<mapsto> Instance ''SGD''],
      next_list = 1, next_object = 3, global_seed = None, trace = [],
      training_loop = (\<lambda>c. Inr [(''loss'', replicate (nat (fit_epochs c)) 0)])\<rparr>"

definition example_adapter :: "int adapter" where
  "example_adapter =
     \<lparr>n_epochs = 6, callbacks = Some 0, verbose = False, loss = ''mean_squared_error'',
      metrics = None, batch_size = 4, random_state = IntSeed 7, activation = ''linear'',
      use_bias = False, optimizer = None, history = None,
      network = ResNetNetwork (IntSeed 7) 128,
      optimizer_fitted = None, input_shape = None, model_fitted = None, callbacks_fitted = None\<rparr>"

definition example_X :: "int ndarray" where
  "example_X = \<lparr>shape = [1, 2, 3], data = [10, 11, 12, 20, 21, 22]\<rparr>"

definition example_y :: "int ndarray" where
  "example_y = \<lparr>shape = [1], data = [5]\<rparr>"

section \<open>Properties\<close>

subsection \<open>The transpose\<close>

lemma map_upt_shift: "map f [a..<a + c] = map (\<lambda>k. f (a + k)) [0..<c]"
proof -
  have "[a..<a + c] = map (\<lambda>k. a + k) [0..<c]"
    by (induction c) simp_all
  then show ?thesis by (simp add: comp_def)
qed

lemma concat_rows_upt:
  "concat (map (\<lambda>j. map (\<lambda>k. f (j * c + k)) [0..<c]) [0..<r]) = map f [0..<r * c]"
proof (induction r)
  case 0
  show ?case by simp
next
  case (Suc r)
  have "[0..<Suc r * c] = [0..<r * c] @ [r * c..<r * c + c]"
    using upt_add_eq_append [of 0 "r * c" c] by (simp add: add.commute)
  then have "map f [0..<Suc r * c] = map f [0..<r * c] @ map f [r * c..<r * c + c]"
    by simp
  then show ?case using Suc by (simp add: map_upt_shift)
qed

lemma length_concat_rows:
  "(\<And>i. i < n \<Longrightarrow> length (g i) = c) \<Longrightarrow> length (concat (map g [0..<n])) = n * c"
  by (induction n) simp_all

lemma nth_concat_rows:
  assumes "\<And>i. i < n \<Longrightarrow> length (g i) = c" and "i < n" and "r < c"
  shows "concat (map g [0..<n]) ! (i * c + r) = g i ! r"
  using assms
proof (induction n)
  case 0
  then show ?case by simp
next
  case (Suc n)
  have len: "length (concat (map g [0..<n])) = n * c"
    using Suc.prems(1) by (simp add: length_concat_rows)
  show ?case
  proof (cases "i < n")
    case True
    have "i * c + r < n * c"
    proof -
      have "i * c + r < i * c + c" using Suc.prems(3) by simp
      also have "\<dots> = Suc i * c" by simp
      also have "\<dots> \<le> n * c" using True by (intro mult_le_mono1) simp
      finally show ?thesis .
    qed
    moreover have "concat (map g [0..<n]) ! (i * c + r) = g i ! r"
      using Suc.IH [OF _ True Suc.prems(3)] Suc.prems(1) by simp
    ultimately show ?thesis
      using len by (simp add: nth_append)
  next
    case False
    then have "i = n" using Suc.prems(2) by simp
    then show ?thesis using len Suc.prems(3) by (simp add: nth_append)
  qed
qed

lemma offset_less:
  assumes "j < r" and "k < c"
  shows "j * c + k < r * (c::nat)"
proof -
  have "j * c + k < j * c + c" using assms(2) by simp
  also have "\<dots> = Suc j * c" by simp
  also have "\<dots> \<le> r * c" using assms(1) by (intro mult_le_mono1) simp
  finally show ?thesis .
qed

lemma length_swap_last_axes: "length (swap_last_axes n d m xs) = n * (m * d)"
  unfolding swap_last_axes_def
  by (rule length_concat_rows) (simp add: length_concat_rows)

lemma nth_swap_last_axes:
  assumes "i < n" and "j < m" and "k < d"
  shows "swap_last_axes n d m xs ! (i * (m * d) + (j * d + k)) = xs ! (i * (d * m) + k * m + j)"
proof -
  let ?row = "\<lambda>i j. map (\<lambda>k. xs ! (i * (d * m) + k * m + j)) [0..<d]"
  let ?plane = "\<lambda>i. concat (map (?row i) [0..<m])"
  have plane_len: "length (?plane i') = m * d" for i'
    by (rule length_concat_rows) simp
  have "swap_last_axes n d m xs ! (i * (m * d) + (j * d + k)) = ?plane i ! (j * d + k)"
    unfolding swap_last_axes_def
    by (rule nth_concat_rows) (use assms plane_len offset_less in auto)
  also have "\<dots> = ?row i j ! k"
    by (rule nth_concat_rows) (use assms in auto)
  also have "\<dots> = xs ! (i * (d * m) + k * m + j)"
    using assms by simp
  finally show ?thesis .
qed

lemma swap_last_axes_twice:
  assumes "length xs = n * (d * m)"
  shows "swap_last_axes n m d (swap_last_axes n d m xs) = xs"
proof -
  let ?ys = "swap_last_axes n d m xs"
  have inner: "map (\<lambda>k. ?ys ! (i * (m * d) + k * d + j)) [0..<m]
      = map (\<lambda>k. xs ! (i * (d * m) + (j * m + k))) [0..<m]" if "i < n" "j < d" for i j
  proof (rule map_cong [OF refl])
    fix k assume "k \<in> set [0..<m]"
    then have "k < m" by simp
    then show "?ys ! (i * (m * d) + k * d + j) = xs ! (i * (d * m) + (j * m + k))"
      using nth_swap_last_axes [OF that(1) \<open>k < m\<close> that(2), of xs] by (simp add: add.assoc)
  qed
  have plane: "concat (map (\<lambda>j. map (\<lambda>k. ?ys ! (i * (m * d) + k * d + j)) [0..<m]) [0..<d])
      = map (\<lambda>p. xs ! (i * (d * m) + p)) [0..<d * m]" if "i < n" for i
  proof -
    have "concat (map (\<lambda>j. map (\<lambda>k. ?ys ! (i * (m * d) + k * d + j)) [0..<m]) [0..<d])
        = concat (map (\<lambda>j. map (\<lambda>k. xs ! (i * (d * m) + (j * m + k))) [0..<m]) [0..<d])"
      by (rule arg_cong [where f = concat], rule map_cong [OF refl]) (simp add: inner that)
    also have "\<dots> = map (\<lambda>p. xs ! (i * (d * m) + p)) [0..<d * m]"
      by (rule concat_rows_upt [where f = "\<lambda>p. xs ! (i * (d * m) + p)"])
    finally show ?thesis .
  qed
  have "swap_last_axes n m d ?ys
      = concat (map (\<lambda>i. map (\<lambda>p. xs ! (i * (d * m) + p)) [0..<d * m]) [0..<n])"
    unfolding swap_last_axes_def [of n m d]
    by (rule arg_cong [where f = concat], rule map_cong [OF refl]) (simp add: plane)
  also have "\<dots> = map (\<lambda>q. xs ! q) [0..<n * (d * m)]"
    by (rule concat_rows_upt [where f = "\<lambda>q. xs ! q"])
  also have "\<dots> = xs"
    using assms map_nth [of xs] by simp
  finally show ?thesis .
qed

lemma transpose_021_shape3:
  "shape X = [n, d, m] \<Longrightarrow>
   transpose_021 X = Inr \<lparr>shape = [n, m, d], data = swap_last_axes n d m (data X)\<rparr>"
  by (simp add: transpose_021_def)

lemma transpose_021_error: "transpose_021 X = Inl e \<Longrightarrow> e = ValueError"
  by (auto simp: transpose_021_def split: list.splits)


subsection \<open>Building the model\<close>

lemma build_model_given:
  assumes "optimizer self = Some g"
  shows "build_model self shp kw w =
     (head_model self shp g, self\<lparr>optimizer_fitted := Some g\<rparr>,
      w\<lparr>global_seed := Some (random_state self),
        trace := trace w @ [SetSeed (random_state self), BuildNetwork shp, Compile (head_model self shp g)]\<rparr>)"
  using assms
  by (simp add: build_model_def set_seed_def emit_def build_network_def compile_def Model_def
      head_model_def Let_def)

lemma build_model_default:
  assumes "optimizer self = None"
  shows "build_model self shp kw w =
     (head_model self shp (next_object w), self\<lparr>optimizer_fitted := Some (next_object w)\<rparr>,
      w\<lparr>global_seed := Some (random_state self),
        object_store := (object_store w)(next_object w \<mapsto> Adam (1 / 100)),
        next_object := Suc (next_object w),
        trace := trace w @ [SetSeed (random_state self), NewAdam (next_object w), BuildNetwork shp,
                            Compile (head_model self shp (next_object w))]\<rparr>)"
  using assms
  by (simp add: build_model_def set_seed_def emit_def build_network_def compile_def Model_def
      head_model_def keras_Adam_def new_object_def Let_def)





subsection \<open>Copying the callbacks\<close>







subsection \<open>Fitting\<close>



lemma example_transpose:
  "transpose_021 example_X = Inr \<lparr>shape = [1, 3, 2], data = [10, 20, 11, 21, 12, 22]\<rparr>"
  by (simp add: example_X_def transpose_021_def swap_last_axes_def upt_rec)


subsection \<open>The test parameters\<close>

lemma get_test_params_without_keras:
  assumes "\<not> keras_installed w"
  shows "get_test_params ps w =
     ([[(''n_epochs'', IntV 6), (''batch_size'', IntV 4), (''use_bias'', BoolV False)],
       [(''n_epochs'', IntV 4), (''batch_size'', IntV 6), (''use_bias'', BoolV True)]], w)"
  using assms by (simp add: get_test_params_def check_soft_dependencies_def)

lemma get_test_params_with_keras:
  assumes "keras_installed w"
  shows "get_test_params ps w =
     ([[(''n_epochs'', IntV 6), (''batch_size'', IntV 4), (''use_bias'', BoolV False)],
       [(''n_epochs'', IntV 4), (''batch_size'', IntV 6), (''use_bias'', BoolV True)],
       [(''n_epochs'', IntV 2), (''callbacks'', ListV (next_list w))]],
      w\<lparr>object_store := (object_store w)(next_object w \<mapsto> LambdaCallback),
        next_object := Suc (next_object w),
        list_store := (list_store w)(next_list w \<mapsto> [next_object w]),
        next_list := Suc (next_list w)\<rparr>)"
  using assms
  by (simp add: get_test_params_def check_soft_dependencies_def new_object_def new_list_def)

section \<open>The claims\<close>



text \<open>
  Claim C2. \<^verbatim>\<open>build_model\<close> resolves the optimizer: with none configured it makes a
  new Adam optimizer with learning rate 0.01 (at an address that held no object before);
  with one configured it takes that very object, and makes none. The model is compiled
  with the resolved optimizer, and the configured one stays as it was.
\<close>

theorem build_model_optimizer:
  assumes "build_model self shp kw w = (mdl, self', w')"
  shows "(optimizer self = None \<longrightarrow>
            optimizer_fitted self' = Some (next_object w)
          \<and> object_store w' (next_object w) = Some (Adam (1 / 100))
          \<and> (wf_world w \<longrightarrow> object_store w (next_object w) = None))
       \<and> (\<forall>given. optimizer self = Some given \<longrightarrow>
            optimizer_fitted self' = Some given
          \<and> object_store w' = object_store w \<and> next_object w' = next_object w)
       \<and> map_option compiled_optimizer (compiled mdl) = optimizer_fitted self'
       \<and> last (trace w') = Compile mdl
       \<and> optimizer self' = optimizer self"
proof (cases "optimizer self")
  case None
  have "wf_world w \<Longrightarrow> object_store w (next_object w) = None"
    by (cases "object_store w (next_object w)") (auto simp: wf_world_def)
  then show ?thesis
    using assms None unfolding build_model_default [OF None]
    by (auto simp: head_model_def)
next
  case (Some g)
  show ?thesis
    using assms Some unfolding build_model_given [OF Some]
    by (auto simp: head_model_def)
qed

theorem build_model_optimizer_witness:
  "optimizer example_adapter = None \<and> wf_world example_world
   \<and> (\<exists>mdl self' w'. build_model example_adapter [24, 1] [] example_world = (mdl, self', w')
        \<and> optimizer_fitted self' = Some 3 \<and> object_store w' 3 = Some (Adam (1 / 100))
        \<and> object_store example_world 3 = None
        \<and> map_option compiled_optimizer (compiled mdl) = Some 3)
   \<and> (\<exists>mdl self' w'.
         build_model (example_adapter\<lparr>optimizer := Some 2\<rparr>) [24, 1] [] example_world = (mdl, self', w')
        \<and> optimizer_fitted self' = Some 2 \<and> object_store w' = object_store example_world
        \<and> map_option compiled_optimizer (compiled mdl) = Some 2)"
proof -
  have none: "optimizer example_adapter = None"
    by (simp add: example_adapter_def)
  have wf: "wf_world example_world"
    by (simp add: wf_world_def example_world_def)
  have nxt: "next_object example_world = 3"
    by (simp add: example_world_def)
  obtain mdl self' w' where b1: "build_model example_adapter [24, 1] [] example_world = (mdl, self', w')"
    by (metis prod_cases3)
  obtain mdl2 self2 w2 where
    b2: "build_model (example_adapter\<lparr>optimizer := Some 2\<rparr>) [24, 1] [] example_world = (mdl2, self2, w2)"
    by (metis prod_cases3)
  have some: "optimizer (example_adapter\<lparr>optimizer := Some 2\<rparr>) = Some 2"
    by simp
  show ?thesis
    using build_model_optimizer [OF b1] build_model_optimizer [OF b2] none wf nxt some b1 b2
    by auto
qed

text \<open>
  Claim C3. \<^verbatim>\<open>build_model\<close> resolves the metrics: with none configured the model
  is compiled with the one metric \<^verbatim>\<open>"mean_squared_error"\<close>; with a list configured it
  is compiled with exactly that list.
\<close>

theorem build_model_metrics:
  assumes "build_model self shp kw w = (mdl, self', w')"
  shows "(metrics self = None \<longrightarrow>
            map_option compiled_metrics (compiled mdl) = Some [''mean_squared_error''])
       \<and> (\<forall>given. metrics self = Some given \<longrightarrow>
            map_option compiled_metrics (compiled mdl) = Some given)
       \<and> last (trace w') = Compile mdl
       \<and> metrics self' = metrics self"
proof (cases "optimizer self")
  case None
  show ?thesis
    using assms unfolding build_model_default [OF None]
    by (auto simp: head_model_def)
next
  case (Some g)
  show ?thesis
    using assms unfolding build_model_given [OF Some]
    by (auto simp: head_model_def)
qed

theorem build_model_metrics_witness:
  "metrics example_adapter = None
   \<and> (\<exists>mdl self' w'. build_model example_adapter [24, 1] [] example_world = (mdl, self', w')
        \<and> map_option compiled_metrics (compiled mdl) = Some [''mean_squared_error''])
   \<and> (\<exists>mdl self' w'.
         build_model (example_adapter\<lparr>metrics := Some [''mae'', ''mse'']\<rparr>) [24, 1] [] example_world
           = (mdl, self', w')
        \<and> map_option compiled_metrics (compiled mdl) = Some [''mae'', ''mse''])"
proof -
  have none: "metrics example_adapter = None"
    by (simp add: example_adapter_def)
  obtain mdl self' w' where b1: "build_model example_adapter [24, 1] [] example_world = (mdl, self', w')"
    by (metis prod_cases3)
  obtain mdl2 self2 w2 where
    b2: "build_model (example_adapter\<lparr>metrics := Some [''mae'', ''mse'']\<rparr>) [24, 1] [] example_world
           = (mdl2, self2, w2)"
    by (metis prod_cases3)
  have some: "metrics (example_adapter\<lparr>metrics := Some [''mae'', ''mse'']\<rparr>) = Some [''mae'', ''mse'']"
    by simp
  show ?thesis
    using build_model_metrics [OF b1] build_model_metrics [OF b2] none some b1 b2
    by auto
qed

text \<open>
  Claim C4. For an input shape \<open>(m, d)\<close>, the output of the model \<^verbatim>\<open>build_model\<close>
  returns is one dense layer of one unit, with the adapter's activation and bias flag,
  on the provider's output tensor; there is no other dense layer; the output has shape
  \<open>(1,)\<close> per instance and the input has shape \<open>(m, d)\<close>.
\<close>

theorem build_model_output_layer:
  assumes "build_model self [m, d] kw w = (mdl, self', w')"
  shows "outputs mdl = Dense 1 (activation self) (use_bias self)
                         (snd (build_network (network self) [m, d] kw))
       \<and> inputs mdl = fst (build_network (network self) [m, d] kw)
       \<and> count_dense (outputs mdl) = 1
       \<and> tensor_shape (outputs mdl) = [1]
       \<and> tensor_shape (inputs mdl) = [m, d]"
proof (cases "optimizer self")
  case None
  show ?thesis
    using assms unfolding build_model_default [OF None]
    by (auto simp: head_model_def build_network_def)
next
  case (Some g)
  show ?thesis
    using assms unfolding build_model_given [OF Some]
    by (auto simp: head_model_def build_network_def)
qed

theorem build_model_output_layer_witness:
  "\<exists>mdl self' w'. build_model example_adapter [24, 1] [] example_world = (mdl, self', w')
     \<and> outputs mdl = Dense 1 ''linear'' False (ResidualFeatures (ResNetNetwork (IntSeed 7) 128) (Input [24, 1]))
     \<and> tensor_shape (outputs mdl) = [1] \<and> tensor_shape (inputs mdl) = [24, 1]"
proof -
  obtain mdl self' w' where b1: "build_model example_adapter [24, 1] [] example_world = (mdl, self', w')"
    by (metis prod_cases3)
  show ?thesis
    using build_model_output_layer [OF b1] b1
    by (simp add: example_adapter_def build_network_def)
qed

text \<open>
  Claim C5, as stated, asks of every record a batch size from 4 to 6. With the callback
  library installed the third record has no batch size.
\<close>

theorem get_test_params_batch_size_counterexample:
  "\<not> list_all batch_size_in_range (fst (get_test_params ''default'' example_world))"
proof -
  have "keras_installed example_world"
    by (simp add: example_world_def)
  then show ?thesis
    by (simp add: get_test_params_with_keras batch_size_in_range_def)
qed

text \<open>
  Claim C5, amended. \<^verbatim>\<open>get_test_params\<close> takes no adapter and ignores its argument.
  It returns two records when the callback library is absent and three when it is
  present. Every record configures a number of epochs from 2 to 6; the first two
  configure a batch size from 4 to 6; a record has callbacks exactly when the library is
  present, and then it is the third record, which holds a list of one no-op callback
  and configures no batch size.
\<close>

theorem get_test_params_records:
  assumes "get_test_params ps w = (params, w')"
  shows "length params = (if keras_installed w then 3 else 2)
       \<and> list_all epochs_in_range params
       \<and> list_all batch_size_in_range (take 2 params)
       \<and> list_ex (\<lambda>p. map_of p ''callbacks'' \<noteq> None) params = keras_installed w
       \<and> (keras_installed w \<longrightarrow>
            has_noop_callback w' (params ! 2) \<and> map_of (params ! 2) ''batch_size'' = None)
       \<and> fst (get_test_params ps' w) = params"
proof (cases "keras_installed w")
  case True
  have "params = fst (get_test_params ps w)" "w' = snd (get_test_params ps w)"
    using assms by simp_all
  then show ?thesis
    using True unfolding get_test_params_with_keras [OF True]
    by (simp add: epochs_in_range_def batch_size_in_range_def has_noop_callback_def)
next
  case False
  have "params = fst (get_test_params ps w)" "w' = snd (get_test_params ps w)"
    using assms by simp_all
  then show ?thesis
    using False unfolding get_test_params_without_keras [OF False]
    by (simp add: epochs_in_range_def batch_size_in_range_def)
qed

theorem get_test_params_records_witness:
  "keras_installed example_world
   \<and> (\<exists>params w'. get_test_params ''default'' example_world = (params, w')
        \<and> length params = 3 \<and> list_all epochs_in_range params
        \<and> has_noop_callback w' (params ! 2) \<and> map_of (params ! 2) ''batch_size'' = None)
   \<and> (\<exists>params w'.
         get_test_params ''default'' (example_world\<lparr>keras_installed := False\<rparr>) = (params, w')
        \<and> length params = 2 \<and> list_all batch_size_in_range params)"
proof -
  have k: "keras_installed example_world"
    by (simp add: example_world_def)
  obtain params w' where g1: "get_test_params ''default'' example_world = (params, w')"
    by (metis surj_pair)
  obtain params2 w2 where
    g2: "get_test_params ''default'' (example_world\<lparr>keras_installed := False\<rparr>) = (params2, w2)"
    by (metis surj_pair)
  note r2 = get_test_params_records [OF g2, of "''default''"]
  have len2: "length params2 = 2"
    using r2 by simp
  have all2: "list_all batch_size_in_range (take 2 params2)"
    using r2 by blast
  have "list_all batch_size_in_range params2"
    using all2 len2 by simp
  then show ?thesis
    using get_test_params_records [OF g1, of "''default''"] k g1 g2 len2 by simp
qed

text \<open>
  Claim C6. \<^verbatim>\<open>__init__\<close> raises the dependency error when the deep-learning
  library is not installed. Otherwise it accepts any values, stores each as given,
  seeds the provider with the same seed, and leaves the history and the attributes
  that fitting creates (the model among them) unset. It does not touch the process
  state: the function returns none.
\<close>

theorem init_checks_dependency_and_stores:
  "(\<not> tensorflow_installed w \<longrightarrow>
      init epochs cbs verb l ms bs seed act bias opt w = Inl ModuleNotFoundError)
   \<and> (tensorflow_installed w \<longrightarrow>
      (\<exists>self. init epochs cbs verb l ms bs seed act bias opt w = Inr self
         \<and> n_epochs self = epochs \<and> callbacks self = cbs \<and> verbose self = verb \<and> loss self = l
         \<and> metrics self = ms \<and> batch_size self = bs \<and> random_state self = seed
         \<and> activation self = act \<and> use_bias self = bias \<and> optimizer self = opt
         \<and> net_random_state (network self) = seed
         \<and> history self = None \<and> model_fitted self = None \<and> optimizer_fitted self = None
         \<and> input_shape self = None \<and> callbacks_fitted self = None))"
  by (simp add: init_def check_dl_dependencies_def ResNetNetwork_def)

theorem init_checks_dependency_and_stores_witness:
  "tensorflow_installed example_world
   \<and> init 6 (Some 0) False ''mean_squared_error'' None 4 (IntSeed 7) ''linear'' False None example_world
       = Inr example_adapter
   \<and> \<not> tensorflow_installed (example_world\<lparr>tensorflow_installed := False\<rparr>)
   \<and> init (- 5) (Some 0) False ''no such loss'' None 0 (OtherSeed ''seed'') ''linear'' False None
        (example_world\<lparr>tensorflow_installed := False\<rparr>) = (Inl ModuleNotFoundError :: error + int adapter)
   \<and> (\<exists>self. init (- 5) (Some 0) False ''no such loss'' None 0 (OtherSeed ''seed'') ''linear'' False None
         example_world = Inr self \<and> n_epochs self = - 5 \<and> batch_size self = 0
         \<and> random_state self = OtherSeed ''seed'' \<and> model_fitted self = None)"
proof -
  have inst: "tensorflow_installed example_world"
    by (simp add: example_world_def)
  have missing: "\<not> tensorflow_installed (example_world\<lparr>tensorflow_installed := False\<rparr>)"
    by simp
  have ex: "init 6 (Some 0) False ''mean_squared_error'' None 4 (IntSeed 7) ''linear'' False None example_world
       = Inr example_adapter"
    by (simp add: init_def check_dl_dependencies_def example_world_def example_adapter_def)
  show ?thesis
    using inst missing ex
      init_checks_dependency_and_stores [of "example_world\<lparr>tensorflow_installed := False\<rparr>"
        "- 5" "Some 0" False "''no such loss''" None 0 "OtherSeed ''seed''" "''linear''" False None]
      init_checks_dependency_and_stores [of example_world
        "- 5" "Some 0" False "''no such loss''" None 0 "OtherSeed ''seed''" "''linear''" False None]
    by auto
qed



text \<open>
  Claim C8. Every call of \<^verbatim>\<open>build_model\<close> sets the global seed of the process to
  the adapter's seed. It is the first call into the framework, it is made once, and the
  seed stays set in the process state the call returns, where a later build finds it.
\<close>

theorem build_model_seeds_global_generator:
  assumes "build_model self shp kw w = (mdl, self', w')"
  shows "global_seed w' = Some (random_state self)
       \<and> (\<exists>rest. trace w' = trace w @ SetSeed (random_state self) # rest
                 \<and> (\<forall>seed. SetSeed seed \<notin> set rest))"
proof (cases "optimizer self")
  case None
  show ?thesis
    using assms unfolding build_model_default [OF None] by auto
next
  case (Some g)
  show ?thesis
    using assms unfolding build_model_given [OF Some] by auto
qed

theorem build_model_seeds_global_generator_witness:
  "\<exists>mdl self' w'. build_model example_adapter [24, 1] [] example_world = (mdl, self', w')
     \<and> global_seed example_world = None \<and> global_seed w' = Some (IntSeed 7)
     \<and> hd (trace w') = SetSeed (IntSeed 7)"
proof -
  obtain mdl self' w' where b1: "build_model example_adapter [24, 1] [] example_world = (mdl, self', w')"
    by (metis prod_cases3)
  have tr: "trace example_world = []" and gs: "global_seed example_world = None"
    and rs: "random_state example_adapter = IntSeed 7"
    by (simp_all add: example_world_def example_adapter_def)
  show ?thesis
    using build_model_seeds_global_generator [OF b1] b1 tr gs rs by auto
qed

text \<open>
  Claim C9. The transpose of \<^verbatim>\<open>_fit\<close> is an involution: an array of shape
  \<open>(n, d, m)\<close> is transposed to one of shape \<open>(n, m, d)\<close>, and transposing that one
  gives the first array back, shape and elements.
\<close>

theorem transpose_involution:
  assumes "wf_ndarray X" and "shape X = [n, d, m]"
  shows "\<exists>Xt. transpose_021 X = Inr Xt \<and> shape Xt = [n, m, d] \<and> wf_ndarray Xt
            \<and> transpose_021 Xt = Inr X"
proof -
  let ?Xt = "\<lparr>shape = [n, m, d], data = swap_last_axes n d m (data X)\<rparr>"
  have len: "length (data X) = n * (d * m)"
    using assms by (simp add: wf_ndarray_def)
  have "transpose_021 ?Xt
      = Inr \<lparr>shape = [n, d, m], data = swap_last_axes n m d (swap_last_axes n d m (data X))\<rparr>"
    by (simp add: transpose_021_shape3)
  also have "\<dots> = Inr X"
    using assms(2) by (simp add: swap_last_axes_twice [OF len])
  finally have twice: "transpose_021 ?Xt = Inr X" .
  have "wf_ndarray ?Xt"
    by (simp add: wf_ndarray_def length_swap_last_axes)
  then show ?thesis
    using twice transpose_021_shape3 [OF assms(2)] by simp
qed

theorem transpose_involution_witness:
  "wf_ndarray \<lparr>shape = [1, 2, 3], data = [10, 11, 12, 20, 21, 22 :: int]\<rparr>
   \<and> transpose_021 \<lparr>shape = [1, 2, 3], data = [10, 11, 12, 20, 21, 22 :: int]\<rparr>
     = Inr \<lparr>shape = [1, 3, 2], data = [10, 20, 11, 21, 12, 22]\<rparr>
   \<and> transpose_021 \<lparr>shape = [1, 3, 2], data = [10, 20, 11, 21, 12, 22 :: int]\<rparr>
     = Inr \<lparr>shape = [1, 2, 3], data = [10, 11, 12, 20, 21, 22]\<rparr>"
proof -
  let ?X = "\<lparr>shape = [1, 2, 3], data = [10, 11, 12, 20, 21, 22 :: int]\<rparr>"
  have wf: "wf_ndarray ?X"
    by (simp add: wf_ndarray_def)
  have sh: "shape ?X = [1, 2, 3]"
    by simp
  have tr: "transpose_021 ?X = Inr \<lparr>shape = [1, 3, 2], data = [10, 20, 11, 21, 12, 22]\<rparr>"
    by (simp add: transpose_021_def swap_last_axes_def upt_rec)
  show ?thesis
    using transpose_involution [OF wf sh] wf tr by auto
qed

text \<open>
  Claim C10, as stated, has \<^verbatim>\<open>_fit\<close> raise \<^verbatim>\<open>ValueError\<close> for every seed that is not
  \<^verbatim>\<open>None\<close>, not an integer and not a \<^verbatim>\<open>RandomState\<close> object. The module
  \<^verbatim>\<open>numpy.random\<close> is none of the three, and the check accepts it: \<^verbatim>\<open>_fit\<close> goes on,
  records the input shape and calls \<^verbatim>\<open>build_model\<close>, which seeds the framework with it.
\<close>

theorem fit_accepts_numpy_random_module_counterexample:
  "random_state (example_adapter\<lparr>random_state := NumpyRandomModule\<rparr>) = NumpyRandomModule
   \<and> check_random_state NumpyRandomModule = Inr GlobalRng
   \<and> fit (example_adapter\<lparr>random_state := NumpyRandomModule\<rparr>) example_X example_y example_world
       \<noteq> (Inl ValueError, example_adapter\<lparr>random_state := NumpyRandomModule\<rparr>, example_world)
   \<and> input_shape (example_adapter\<lparr>random_state := NumpyRandomModule\<rparr>) = None
   \<and> input_shape (fst (snd (fit (example_adapter\<lparr>random_state := NumpyRandomModule\<rparr>)
                                example_X example_y example_world))) = Some [3, 2]
   \<and> hd (trace (snd (snd (fit (example_adapter\<lparr>random_state := NumpyRandomModule\<rparr>)
                                example_X example_y example_world)))) = SetSeed NumpyRandomModule"
proof -
  let ?A = "example_adapter\<lparr>random_state := NumpyRandomModule\<rparr>"
  have before: "input_shape ?A = None"
    by (simp add: example_adapter_def)
  have after: "input_shape (fst (snd (fit ?A example_X example_y example_world))) = Some [3, 2]"
    by (simp add: fit_def example_transpose example_adapter_def example_world_def build_model_def
        set_seed_def emit_def keras_Adam_def new_object_def build_network_def compile_def Model_def
        Let_def ResNetNetwork_def)
  have first: "hd (trace (snd (snd (fit ?A example_X example_y example_world)))) = SetSeed NumpyRandomModule"
    by (simp add: fit_def example_transpose example_adapter_def example_world_def build_model_def
        set_seed_def emit_def keras_Adam_def new_object_def build_network_def compile_def Model_def
        Let_def ResNetNetwork_def)
  have differs: "fit ?A example_X example_y example_world \<noteq> (Inl ValueError, ?A, example_world)"
  proof
    assume "fit ?A example_X example_y example_world = (Inl ValueError, ?A, example_world)"
    then have "input_shape (fst (snd (fit ?A example_X example_y example_world))) = input_shape ?A"
      by simp
    then show False
      using before after by simp
  qed
  show ?thesis
    using before after first differs by simp
qed

text \<open>
  Claim C10, amended. With a seed that is not \<^verbatim>\<open>None\<close>, not the module
  \<^verbatim>\<open>numpy.random\<close>, not an integer and not a \<^verbatim>\<open>RandomState\<close> object, \<^verbatim>\<open>_fit\<close>
  raises \<^verbatim>\<open>ValueError\<close> and leaves the adapter and the process as they were: no model
  is built, nothing is trained.
\<close>

theorem fit_rejects_invalid_random_state:
  assumes "random_state self \<noteq> NoSeed"
    and "random_state self \<noteq> NumpyRandomModule"
    and "\<And>i. random_state self \<noteq> IntSeed i"
    and "\<And>g. random_state self \<noteq> RandomStateObject g"
  shows "fit self X y w = (Inl ValueError, self, w)"
proof -
  obtain s where "random_state self = OtherSeed s"
    using assms by (cases "random_state self") auto
  then show ?thesis
    by (auto simp: fit_def split: sum.splits dest: transpose_021_error)
qed

theorem fit_rejects_invalid_random_state_witness:
  "fit (example_adapter\<lparr>random_state := OtherSeed ''seed''\<rparr>)
       \<lparr>shape = [1, 2, 3], data = [10, 11, 12, 20, 21, 22]\<rparr> \<lparr>shape = [1], data = [5]\<rparr> example_world
     = (Inl ValueError, example_adapter\<lparr>random_state := OtherSeed ''seed''\<rparr>, example_world)"
  by (rule fit_rejects_invalid_random_state) simp_all

end
